theory Spec2Isabelle
  imports Main "HOL-Library.Multiset"
begin

section \<open>Events and instants\<close>

text \<open>
  An instant (Go's \<open>time.Time\<close>, compared with \<open>Before\<close> and \<open>After\<close>) is the number of
  nanoseconds since the Unix epoch; a \<open>time.Duration\<close> is a number of nanoseconds.
  \<open>prayer.Event\<close> is the struct of \<open>internal/prayer/times.go\<close>.
\<close>

type_synonym instant = int
type_synonym duration = int

record Event =
  Name :: string
  When :: instant

definition StandardOrder :: "string list" where
  "StandardOrder = [''Fajr'', ''Sunrise'', ''Dhuhr'', ''Asr'', ''Maghrib'', ''Isha'']"

section \<open>sort.Slice on events\<close>

text \<open>
  \<open>sort.Slice(events, func(i, j) { return events[i].When.Before(events[j].When) })\<close>.
  On a slice of at most twelve elements Go's \<open>sort.Slice\<close> runs its insertion sort
  (\<open>for i := a+1; i < b; i++ { for j := i; j > a && less(j, j-1); j-- { swap(j, j-1) } }\<close>);
  \<open>ParseTimes\<close> never sorts more than the six names of \<open>StandardOrder\<close>.
  \<open>sinkLeft x ps\<close> is the inner loop: \<open>ps\<close> is the already sorted prefix, last element
  first, and \<open>x\<close> moves left while it is strictly before its left neighbour.
\<close>

fun sinkLeft :: "Event \<Rightarrow> Event list \<Rightarrow> Event list" where
  "sinkLeft x [] = [x]"
| "sinkLeft x (p # ps) = (if When x < When p then p # sinkLeft x ps else x # p # ps)"

definition sortSlice :: "Event list \<Rightarrow> Event list" where
  "sortSlice xs = rev (foldl (\<lambda>acc x. sinkLeft x acc) [] xs)"

section \<open>Event queries\<close>

text \<open>The loop of \<open>NextEventAfter\<close>, with \<open>best\<close> as the loop state (\<open>nil\<close> is \<open>None\<close>).\<close>

fun nextLoop :: "Event list \<Rightarrow> instant \<Rightarrow> Event option \<Rightarrow> Event option" where
  "nextLoop [] after best = best"
| "nextLoop (e # es) after best =
     nextLoop es after
       (if after < When e
        then (case best of
                None \<Rightarrow> Some e
              | Some b \<Rightarrow> if When e < When b then Some e else Some b)
        else best)"

definition NextEventAfter :: "Event list \<Rightarrow> instant \<Rightarrow> Event option" where
  "NextEventAfter events after = nextLoop events after None"

text \<open>\<open>UpcomingEvents\<close>: the filtering loop appends to \<open>result\<close>, then the slice is sorted.\<close>

definition UpcomingEvents :: "Event list \<Rightarrow> instant \<Rightarrow> duration \<Rightarrow> Event list" where
  "UpcomingEvents events from within =
     (let limit = from + within;
          result = foldl (\<lambda>res e. if from < When e \<and> When e < limit then res @ [e] else res)
                     [] events
      in sortSlice result)"

section \<open>Properties of the sort\<close>

lemma mset_sinkLeft: "mset (sinkLeft x ps) = add_mset x (mset ps)"
  by (induction ps) auto

lemma set_sinkLeft: "set (sinkLeft x ps) = insert x (set ps)"
  by (induction ps) auto

lemma mset_foldl_sinkLeft:
  "mset (foldl (\<lambda>acc x. sinkLeft x acc) acc xs) = mset acc + mset xs"
  by (induction xs arbitrary: acc) (auto simp: mset_sinkLeft)

lemma mset_sortSlice: "mset (sortSlice xs) = mset xs"
  by (simp add: sortSlice_def mset_foldl_sinkLeft)

lemma set_sortSlice: "set (sortSlice xs) = set xs"
  using mset_sortSlice [of xs] by (metis set_mset_mset)

lemma length_sortSlice: "length (sortSlice xs) = length xs"
  using mset_sortSlice [of xs] by (metis size_mset)

definition descending :: "Event list \<Rightarrow> bool" where
  "descending ps = sorted_wrt (\<lambda>a b. When b \<le> When a) ps"

lemma descending_sinkLeft: "descending ps \<Longrightarrow> descending (sinkLeft x ps)"
  by (induction ps) (auto simp: descending_def set_sinkLeft)

lemma descending_foldl:
  "descending acc \<Longrightarrow> descending (foldl (\<lambda>acc x. sinkLeft x acc) acc xs)"
  by (induction xs arbitrary: acc) (auto simp: descending_sinkLeft)

lemma sorted_rev_descending: "descending ps \<Longrightarrow> sorted (map When (rev ps))"
  by (induction ps) (auto simp: descending_def sorted_append)

lemma sorted_sortSlice: "sorted (map When (sortSlice xs))"
  unfolding sortSlice_def
  by (rule sorted_rev_descending, rule descending_foldl) (simp add: descending_def)

section \<open>NextEventAfter\<close>

lemma nextLoop_spec:
  "(case best of None \<Rightarrow> True | Some b \<Rightarrow> t < When b) \<Longrightarrow>
   (case nextLoop es t best of
      None \<Rightarrow> best = None \<and> (\<forall>e\<in>set es. When e \<le> t)
    | Some r \<Rightarrow> (r \<in> set es \<or> best = Some r) \<and> t < When r
                \<and> (\<forall>e\<in>set es. t < When e \<longrightarrow> When r \<le> When e)
                \<and> (\<forall>b. best = Some b \<longrightarrow> When r \<le> When b))"
proof (induction es arbitrary: best)
  case Nil
  then show ?case by (cases best) auto
next
  case (Cons e es)
  let ?best' = "if t < When e
        then (case best of
                None \<Rightarrow> Some e
              | Some b \<Rightarrow> if When e < When b then Some e else Some b)
        else best"
  have inv: "case ?best' of None \<Rightarrow> True | Some b \<Rightarrow> t < When b"
    using Cons.prems by (auto split: option.splits)
  show ?case
    using Cons.IH [OF inv]
    by (auto split: option.splits if_splits)
qed

text \<open>
  Claim C5. For every event list and reference instant \<open>t\<close>, \<open>NextEventAfter\<close> returns
  none exactly when no event is strictly later than \<open>t\<close> (so also for the empty list);
  otherwise it returns an event of the list whose instant is strictly greater than \<open>t\<close>
  and is the smallest such instant. It never returns an event at or before \<open>t\<close>.
\<close>

theorem NextEventAfter_smallest_later:
  "(case NextEventAfter events t of
      None \<Rightarrow> \<forall>e\<in>set events. When e \<le> t
    | Some b \<Rightarrow> b \<in> set events \<and> t < When b
                \<and> (\<forall>e\<in>set events. t < When e \<longrightarrow> When b \<le> When e))"
  using nextLoop_spec [where best = None and t = t and es = events]
  by (auto simp: NextEventAfter_def split: option.splits)

theorem NextEventAfter_smallest_later_witness:
  "NextEventAfter
     [\<lparr>Name = ''Fajr'', When = 5\<rparr>, \<lparr>Name = ''Asr'', When = 30\<rparr>, \<lparr>Name = ''Dhuhr'', When = 20\<rparr>] 10
     = Some \<lparr>Name = ''Dhuhr'', When = 20\<rparr>
   \<and> NextEventAfter [] 10 = None
   \<and> NextEventAfter [\<lparr>Name = ''Fajr'', When = 10\<rparr>] 10 = None"
  using NextEventAfter_smallest_later
    [of "[\<lparr>Name = ''Fajr'', When = 5\<rparr>, \<lparr>Name = ''Asr'', When = 30\<rparr>, \<lparr>Name = ''Dhuhr'', When = 20\<rparr>]" 10]
  by (simp add: NextEventAfter_def)

section \<open>UpcomingEvents\<close>

lemma foldl_append_filter:
  "foldl (\<lambda>res e. if P e then res @ [e] else res) acc es = acc @ filter P es"
  by (induction es arbitrary: acc) auto

lemma UpcomingEvents_filter:
  "UpcomingEvents events from within =
     sortSlice (filter (\<lambda>e. from < When e \<and> When e < from + within) events)"
  by (simp add: UpcomingEvents_def foldl_append_filter)

lemma sinkLeft_at_end: "\<forall>p\<in>set ps. When p \<le> When x \<Longrightarrow> sinkLeft x ps = x # ps"
  by (cases ps) auto

lemma foldl_sinkLeft_sorted:
  "sorted (map When (rev acc @ xs)) \<Longrightarrow> foldl (\<lambda>acc x. sinkLeft x acc) acc xs = rev xs @ acc"
proof (induction xs arbitrary: acc)
  case Nil
  then show ?case by simp
next
  case (Cons x xs)
  have "\<forall>p\<in>set acc. When p \<le> When x"
    using Cons.prems by (auto simp: sorted_append)
  then have s: "sinkLeft x acc = x # acc" by (rule sinkLeft_at_end)
  have "sorted (map When (rev (x # acc) @ xs))" using Cons.prems by simp
  from Cons.IH [OF this] s show ?case by simp
qed

lemma sortSlice_sorted_id: "sorted (map When xs) \<Longrightarrow> sortSlice xs = xs"
  using foldl_sinkLeft_sorted [of "[]" xs] by (simp add: sortSlice_def)

text \<open>
  Claim C6. For every event list, instant \<open>from\<close> and duration \<open>within\<close>,
  \<open>UpcomingEvents\<close> returns exactly the events (with their multiplicities) whose instant is
  strictly greater than \<open>from\<close> and strictly less than \<open>from + within\<close>, sorted
  ascending by instant. It is a function of its arguments, so two calls with identical
  arguments yield identical output; moreover applying it again to its own output with
  the same window changes nothing.
\<close>

theorem UpcomingEvents_window_sorted:
  "mset (UpcomingEvents events from within)
     = filter_mset (\<lambda>e. from < When e \<and> When e < from + within) (mset events)
   \<and> sorted (map When (UpcomingEvents events from within))
   \<and> UpcomingEvents (UpcomingEvents events from within) from within
       = UpcomingEvents events from within"
proof -
  let ?P = "\<lambda>e. from < When e \<and> When e < from + within"
  let ?r = "UpcomingEvents events from within"
  have r: "?r = sortSlice (filter ?P events)" by (rule UpcomingEvents_filter)
  have m: "mset ?r = filter_mset ?P (mset events)"
    by (simp add: r mset_sortSlice)
  have s: "sorted (map When ?r)" by (simp add: r sorted_sortSlice)
  have "set ?r = set (filter ?P events)" by (simp add: r set_sortSlice)
  then have "filter ?P ?r = ?r" by (auto intro: filter_True)
  then have "UpcomingEvents ?r from within = sortSlice ?r"
    using UpcomingEvents_filter [of ?r "from" within] by simp
  also have "\<dots> = ?r" using s by (rule sortSlice_sorted_id)
  finally show ?thesis using m s by simp
qed

lemma UpcomingEvents_example:
  "UpcomingEvents
     [\<lparr>Name = ''Isha'', When = 90\<rparr>, \<lparr>Name = ''Fajr'', When = 5\<rparr>, \<lparr>Name = ''Asr'', When = 30\<rparr>,
      \<lparr>Name = ''Dhuhr'', When = 20\<rparr>, \<lparr>Name = ''Sunrise'', When = 10\<rparr>] 10 80
     = [\<lparr>Name = ''Dhuhr'', When = 20\<rparr>, \<lparr>Name = ''Asr'', When = 30\<rparr>]"
  by (simp add: UpcomingEvents_def sortSlice_def)

section \<open>Strings\<close>

text \<open>
  Strings are byte lists, as Go's are. The functions of package \<open>strings\<close> and
  \<open>strconv\<close> that \<open>ParseTimes\<close> and \<open>parseDateTime\<close> call are written out for the
  bytes they act on; white space is the six ASCII space characters.
\<close>

definition isSpace :: "char \<Rightarrow> bool" where
  "isSpace c = (c = CHR 0x09 \<or> c = CHR 0x0A \<or> c = CHR 0x0B \<or> c = CHR 0x0C
                \<or> c = CHR 0x0D \<or> c = CHR '' '')"

text \<open>\<open>strings.Fields\<close>: the maximal runs of non-space bytes, in order.\<close>

fun fieldsLoop :: "string \<Rightarrow> string \<Rightarrow> string list" where
  "fieldsLoop cur [] = (if cur = [] then [] else [cur])"
| "fieldsLoop cur (c # cs) =
     (if isSpace c then (if cur = [] then fieldsLoop [] cs else cur # fieldsLoop [] cs)
      else fieldsLoop (cur @ [c]) cs)"

definition Fields :: "string \<Rightarrow> string list" where
  "Fields s = fieldsLoop [] s"

text \<open>\<open>strings.Index(s, "(")\<close> for a one-byte separator: the first position, or \<open>-1\<close>.\<close>

fun IndexByte :: "string \<Rightarrow> char \<Rightarrow> int" where
  "IndexByte [] c = - 1"
| "IndexByte (x # xs) c =
     (if x = c then 0 else (let i = IndexByte xs c in if i < 0 then - 1 else i + 1))"

definition TrimSpace :: "string \<Rightarrow> string" where
  "TrimSpace s = rev (dropWhile isSpace (rev (dropWhile isSpace s)))"

text \<open>\<open>strings.Split(s, sep)\<close> for a one-byte separator; the empty string gives one empty part.\<close>

fun splitLoop :: "char \<Rightarrow> string \<Rightarrow> string \<Rightarrow> string list" where
  "splitLoop sep cur [] = [cur]"
| "splitLoop sep cur (c # cs) =
     (if c = sep then cur # splitLoop sep [] cs else splitLoop sep (cur @ [c]) cs)"

definition Split :: "string \<Rightarrow> char \<Rightarrow> string list" where
  "Split s sep = splitLoop sep [] s"

definition isDigit :: "char \<Rightarrow> bool" where
  "isDigit c = (c \<in> set ''0123456789'')"

text \<open>The value of a digit, \<open>ch - '0'\<close>.\<close>

definition digitVal :: "char \<Rightarrow> int" where
  "digitVal c = int (of_char c) - 48"

definition digitsValue :: "string \<Rightarrow> int" where
  "digitsValue s = foldl (\<lambda>n ch. n * 10 + digitVal ch) 0 s"

text \<open>
  \<open>strconv.Atoi\<close>, of which the callers keep the number and drop the error
  (\<open>h, _ := strconv.Atoi(parts[0])\<close>): an optional sign and at least one decimal digit give
  the number, clamped to the 64-bit range; anything else gives \<open>0\<close>.
\<close>

definition Atoi :: "string \<Rightarrow> int" where
  "Atoi s =
     (let neg = (s \<noteq> [] \<and> hd s = CHR ''-'');
          body = (if s \<noteq> [] \<and> (hd s = CHR ''-'' \<or> hd s = CHR ''+'') then tl s else s)
      in if body = [] \<or> \<not> list_all isDigit body then 0
         else (let un = digitsValue body
               in if neg then (if 2 ^ 63 < un then - (2 ^ 63) else - un)
                  else (if 2 ^ 63 \<le> un then 2 ^ 63 - 1 else un)))"

text \<open>Decimal output: \<open>%d\<close> of \<open>fmt.Sprintf\<close> and \<open>appendInt\<close> of package \<open>time\<close>.\<close>

definition digitChar :: "nat \<Rightarrow> char" where
  "digitChar n = ''0123456789'' ! n"

fun digitsOf :: "nat \<Rightarrow> string" where
  "digitsOf n = (if n < 10 then [digitChar n] else digitsOf (n div 10) @ [digitChar (n mod 10)])"

declare digitsOf.simps [simp del]

definition zeroPad :: "nat \<Rightarrow> string \<Rightarrow> string" where
  "zeroPad width s = replicate (width - length s) (CHR ''0'') @ s"

definition fmtInt :: "int \<Rightarrow> string" where
  "fmtInt x = (if x < 0 then ''-'' @ digitsOf (nat (- x)) else digitsOf (nat x))"

text \<open>\<open>%02d\<close>: the width counts the sign, the zeros stand between the sign and the digits.\<close>

definition fmtInt02 :: "int \<Rightarrow> string" where
  "fmtInt02 x = (if x < 0 then ''-'' @ zeroPad 1 (digitsOf (nat (- x)))
                 else zeroPad 2 (digitsOf (nat x)))"

definition appendInt :: "int \<Rightarrow> nat \<Rightarrow> string" where
  "appendInt x width = (if x < 0 then ''-'' @ zeroPad width (digitsOf (nat (- x)))
                        else zeroPad width (digitsOf (nat x)))"

text \<open>\<open>%-8s\<close>: spaces on the right up to the width.\<close>

definition padRight :: "nat \<Rightarrow> string \<Rightarrow> string" where
  "padRight width s = s @ replicate (width - length s) (CHR '' '')"

text \<open>\<open>strings.Join(parts, sep)\<close>.\<close>

fun Join :: "string list \<Rightarrow> string \<Rightarrow> string" where
  "Join [] sep = []"
| "Join [p] sep = p"
| "Join (p # q # ps) sep = p @ sep @ Join (q # ps) sep"

section \<open>Calendar, time zones and the clock\<close>

text \<open>
  A \<open>*time.Location\<close> is its lookup: for a Unix time in seconds, the offset east of UTC
  in force then, and the Unix times at which that offset starts and ends
  (\<open>Location.lookup\<close> of package \<open>time\<close>; the zone name and the daylight flag are not used).
\<close>

type_synonym location = "int \<Rightarrow> int \<times> int \<times> int"

text \<open>
  \<open>time.Date(year, month, day, hour, min, 0, 0, loc)\<close>, as package \<open>time\<close> computes it:
  values out of range are normalised by \<open>norm\<close>, the days are counted from the library's
  absolute epoch, and the local seconds are moved to UTC by the offset the location gives
  (looked up a second time when the first guess falls outside its own period).
  The library computes in 64 bits; the model uses unbounded integers, which agree as long
  as nothing overflows (years within \<open>\<plusminus>\<close>2.9e11).
\<close>

definition norm :: "int \<Rightarrow> int \<Rightarrow> int \<Rightarrow> int \<times> int" where
  "norm hi lo base =
     (let (hi1, lo1) = (if lo < 0
                        then (let n = (- lo - 1) div base + 1 in (hi - n, lo + n * base))
                        else (hi, lo))
      in if base \<le> lo1 then (let n = lo1 div base in (hi1 + n, lo1 - n * base))
         else (hi1, lo1))"

definition isLeap :: "int \<Rightarrow> bool" where
  "isLeap year = (year mod 4 = 0 \<and> (year mod 100 \<noteq> 0 \<or> year mod 400 = 0))"

definition daysBefore :: "int list" where
  "daysBefore = [0, 31, 59, 90, 120, 151, 181, 212, 243, 273, 304, 334, 365]"

definition absoluteZeroYear :: int where
  "absoluteZeroYear = - 292277022399"

definition absoluteToInternal :: int where
  "absoluteToInternal = - 9223371966579724800"

definition internalToUnix :: int where
  "internalToUnix = - 62135596800"

definition daysSinceEpoch :: "int \<Rightarrow> int" where
  "daysSinceEpoch year =
     (let y = year - absoluteZeroYear;
          n400 = y div 400; y1 = y - 400 * n400;
          n100 = y1 div 100; y2 = y1 - 100 * n100;
          n4 = y2 div 4; y3 = y2 - 4 * n4
      in 146097 * n400 + 36524 * n100 + 1461 * n4 + 365 * y3)"

text \<open>The seconds since the Unix epoch of the given wall-clock reading, taken as UTC.\<close>

definition civilSeconds :: "int \<Rightarrow> int \<Rightarrow> int \<Rightarrow> int \<Rightarrow> int \<Rightarrow> int" where
  "civilSeconds year month day hour minute =
     (let (year1, m) = norm year (month - 1) 12;
          month1 = m + 1;
          (hour1, min1) = norm hour minute 60;
          (day1, hour2) = norm day hour1 24;
          d = daysSinceEpoch year1 + daysBefore ! nat m
              + (if isLeap year1 \<and> 3 \<le> month1 then 1 else 0)
              + (day1 - 1);
          abs = d * 86400 + (hour2 * 3600 + min1 * 60)
      in abs + (absoluteToInternal + internalToUnix))"

definition zoneAdjust :: "location \<Rightarrow> int \<Rightarrow> int" where
  "zoneAdjust loc unix =
     (case loc unix of (offset, start, end) \<Rightarrow>
        if offset \<noteq> 0
        then (let utc = unix - offset;
                  offset1 = (if utc < start \<or> end \<le> utc then fst (loc utc) else offset)
              in unix - offset1)
        else unix)"

definition Date :: "int \<Rightarrow> int \<Rightarrow> int \<Rightarrow> int \<Rightarrow> int \<Rightarrow> location \<Rightarrow> instant" where
  "Date year month day hour minute loc =
     zoneAdjust loc (civilSeconds year month day hour minute) * 1000000000"

text \<open>
  One reading of the clock, \<open>time.Now().In(loc)\<close>: its instant, and the calendar date it
  shows in \<open>loc\<close> (\<open>now.Day()\<close>, \<open>now.Month()\<close>, \<open>now.Year()\<close>). One reading stands for the
  calls a single run makes.
\<close>

record Now =
  nowInstant :: instant
  nowDay :: int
  nowMonth :: int
  nowYear :: int

text \<open>\<open>now.Format("02-01-2006")\<close>.\<close>

definition formatDate :: "Now \<Rightarrow> string" where
  "formatDate now = appendInt (nowDay now) 2 @ ''-'' @ appendInt (nowMonth now) 2 @ ''-''
                    @ appendInt (nowYear now) 4"

text \<open>
  The hour and minute an instant shows in a location, and \<open>FormatTime\<close>: layout
  \<open>15:04\<close>, or \<open>03:04 PM\<close> when \<open>ampm\<close> is set. An event made by \<open>ParseTimes\<close> carries the
  location it was parsed with, which is passed here explicitly.
\<close>

definition localClock :: "location \<Rightarrow> instant \<Rightarrow> int \<times> int" where
  "localClock loc t =
     (let unix = t div 1000000000;
          abs = unix + fst (loc unix)
      in ((abs mod 86400) div 3600, (abs mod 3600) div 60))"

definition FormatTime :: "location \<Rightarrow> instant \<Rightarrow> bool \<Rightarrow> string" where
  "FormatTime loc t ampm =
     (case localClock loc t of (hour, minute) \<Rightarrow>
        if ampm
        then (let hr = (if hour mod 12 = 0 then 12 else hour mod 12)
              in appendInt hr 2 @ '':'' @ appendInt minute 2 @ '' ''
                 @ (if 12 \<le> hour then ''PM'' else ''AM''))
        else appendInt hour 2 @ '':'' @ appendInt minute 2)"

text \<open>\<open>t.Sub(u)\<close>: the difference, saturated to the range of a 64-bit duration.\<close>

definition Sub :: "instant \<Rightarrow> instant \<Rightarrow> duration" where
  "Sub t u = (let d = t - u
              in if 2 ^ 63 - 1 < d then 2 ^ 63 - 1 else if d < - (2 ^ 63) then - (2 ^ 63) else d)"

section \<open>The payload and its parser\<close>

text \<open>
  The fields of \<open>api.Response\<close> that the program reads: \<open>Data.Timings\<close>,
  \<open>Data.Date.Gregorian.Date\<close>, \<open>Data.Date.Hijri\<close> (\<open>Date\<close>, \<open>Month.En\<close>, \<open>Month.Ar\<close>,
  \<open>Weekday.En\<close>, \<open>Weekday.Ar\<close>) and \<open>Data.Meta.Timezone\<close>.
\<close>

record Response =
  Timings :: "string \<rightharpoonup> string"
  GregorianDate :: string
  HijriDate :: string
  HijriMonthEn :: string
  HijriMonthAr :: string
  HijriWeekdayEn :: string
  HijriWeekdayAr :: string
  Timezone :: string

text \<open>
  The date part of \<open>parseDateTime\<close>: day, month and year of a \<open>DD-MM-YYYY\<close> string,
  or today's date when the string has fewer than three parts or one of the numbers is \<open>0\<close>.
\<close>

definition batchDate :: "Now \<Rightarrow> string \<Rightarrow> int \<times> int \<times> int" where
  "batchDate now gregDate =
     (let dateParts = Split gregDate (CHR ''-'');
          (day, month, year) =
            (if 3 \<le> length dateParts
             then (Atoi (dateParts ! 0), Atoi (dateParts ! 1), Atoi (dateParts ! 2))
             else (0, 0, 0))
      in if day = 0 \<or> month = 0 \<or> year = 0
         then (nowDay now, nowMonth now, nowYear now)
         else (day, month, year))"

text \<open>
  \<open>parseDateTime\<close>. Its only error is a time string with fewer than two
  colon-separated parts; the numbers are read by \<open>Atoi\<close> with the errors dropped.
\<close>

datatype error = InvalidTimeFormat string

definition parseDateTime :: "Now \<Rightarrow> string \<Rightarrow> string \<Rightarrow> location \<Rightarrow> error + instant" where
  "parseDateTime now gregDate timeStr loc =
     (let parts = Split timeStr (CHR '':'')
      in if length parts < 2 then Inl (InvalidTimeFormat timeStr)
         else
           (let h = Atoi (parts ! 0);
                m = Atoi (parts ! 1)
            in case batchDate now gregDate of
                 (day, month, year) \<Rightarrow> Inr (Date year month day h m loc)))"

text \<open>The token of a raw time string: its first field, cut at an opening parenthesis.\<close>

definition timeToken :: "string \<Rightarrow> string" where
  "timeToken tok0 =
     (let i = IndexByte tok0 (CHR ''('')
      in if 0 \<le> i then TrimSpace (take (nat i) tok0) else tok0)"

text \<open>One round of the loop of \<open>ParseTimes\<close> over \<open>StandardOrder\<close>.\<close>

definition parseRow ::
  "Now \<Rightarrow> Response \<Rightarrow> location \<Rightarrow> string \<Rightarrow> Event list \<Rightarrow> string \<Rightarrow> Event list" where
  "parseRow now resp loc gregDate events name =
     (case Timings resp name of
        None \<Rightarrow> events
      | Some tstr \<Rightarrow>
          (case Fields tstr of
             [] \<Rightarrow> events
           | tok0 # _ \<Rightarrow>
               (case parseDateTime now gregDate (timeToken tok0) loc of
                  Inl err \<Rightarrow> events
                | Inr dt \<Rightarrow> events @ [\<lparr>Name = name, When = dt\<rparr>])))"

definition ParseTimes :: "Now \<Rightarrow> Response \<Rightarrow> location \<Rightarrow> Event list" where
  "ParseTimes now resp loc =
     (let gregDate = (if GregorianDate resp = [] then formatDate now else GregorianDate resp);
          events = foldl (parseRow now resp loc gregDate) [] StandardOrder
      in sortSlice events)"

text \<open>
  \<open>TimezoneFromResp\<close>. The zone database is the environment's: \<open>LoadLocation\<close> gives
  the location of a name or fails, \<open>Local\<close> is the system's zone.
\<close>

record Zones =
  LoadLocation :: "string \<Rightarrow> location option"
  Local :: location

definition TimezoneFromResp :: "Zones \<Rightarrow> Response \<Rightarrow> location" where
  "TimezoneFromResp zones resp =
     (let tz = Timezone resp
      in if tz = [] then Local zones
         else (case LoadLocation zones tz of
                 None \<Rightarrow> Local zones
               | Some loc \<Rightarrow> loc))"

section \<open>Formatting\<close>

text \<open>
  \<open>int(d.Minutes())\<close> for a duration that is not negative: the whole minutes of \<open>d\<close>.
\<close>

definition totalMinutes :: "duration \<Rightarrow> int" where
  "totalMinutes d = d div 60000000000"

definition HumanDuration :: "duration \<Rightarrow> string" where
  "HumanDuration d =
     (if d < 0 then ''passed''
      else (let totalMins = totalMinutes d
            in if totalMins < 60 then fmtInt totalMins @ ''m''
               else (let h = totalMins div 60; m = totalMins mod 60
                     in if m = 0 then fmtInt h @ ''h''
                        else fmtInt h @ ''h'' @ fmtInt02 m @ ''m'')))"

definition HijriString :: "Response \<Rightarrow> bool \<Rightarrow> string" where
  "HijriString resp arabic =
     (let parts0 = (if HijriDate resp \<noteq> [] then [HijriDate resp] else []);
          month = (if arabic then HijriMonthAr resp else HijriMonthEn resp);
          parts1 = (if month \<noteq> [] then parts0 @ [month] else parts0);
          weekday = (if arabic then HijriWeekdayAr resp else HijriWeekdayEn resp);
          parts2 = (if weekday \<noteq> [] then parts1 @ [weekday] else parts1)
      in Join parts2 '' '')"

section \<open>The status-line view\<close>

text \<open>
  \<open>waybar.Build(resp, ampm, arabic, short)\<close>, the function that \<open>runWaybar\<close> calls. The
  signs of its format strings are the UTF-8 bytes of the calendar sign, the dash, the
  check mark and the arrow.
\<close>

record Output =
  Text :: string
  Tooltip :: string
  Class :: string

definition calendarSign :: string where
  "calendarSign = [CHR 0xF0, CHR 0x9F, CHR 0x93, CHR 0x85]"

definition emDash :: string where
  "emDash = [CHR 0xE2, CHR 0x80, CHR 0x94]"

definition checkMark :: string where
  "checkMark = [CHR 0xE2, CHR 0x9C, CHR 0x93]"

definition leftArrow :: string where
  "leftArrow = [CHR 0xE2, CHR 0x86, CHR 0x90]"

text \<open>
  One round of the outer loop over \<open>StandardOrder\<close>: the first event of that name, if
  there is one, gives a line of the tooltip.
\<close>

definition scheduleRow ::
  "location \<Rightarrow> Now \<Rightarrow> Event option \<Rightarrow> bool \<Rightarrow> Event list \<Rightarrow> string list \<Rightarrow> string
     \<Rightarrow> string list" where
  "scheduleRow loc now next ampm events tooltipLines name =
     (case find (\<lambda>e. Name e = name) events of
        None \<Rightarrow> tooltipLines
      | Some e \<Rightarrow>
          (let marker =
                 (if When e < nowInstant now then '' '' @ checkMark
                  else (case next of
                          None \<Rightarrow> []
                        | Some n \<Rightarrow> if Name e = Name n then '' '' @ leftArrow else []))
           in tooltipLines
              @ [''  '' @ padRight 8 name @ '' '' @ FormatTime loc (When e) ampm @ marker]))"

definition Build :: "Zones \<Rightarrow> Now \<Rightarrow> Response \<Rightarrow> bool \<Rightarrow> bool \<Rightarrow> bool \<Rightarrow> Output" where
  "Build zones now resp ampm arabic short =
     (let loc = TimezoneFromResp zones resp;
          events = ParseTimes now resp loc;
          next = NextEventAfter events (nowInstant now);
          hijri = HijriString resp arabic;
          lines0 = (if hijri \<noteq> [] then [calendarSign @ '' '' @ hijri] else []);
          (text, lines1) =
            (case next of
               Some n \<Rightarrow>
                 (let rem = HumanDuration (Sub (When n) (nowInstant now));
                      timeStr = FormatTime loc (When n) ampm
                  in (if short then Name n @ '' '' @ timeStr
                      else Name n @ '' '' @ timeStr @ '' ('' @ rem @ '')'',
                      lines0 @ [''Next: '' @ Name n @ '' '' @ emDash @ '' '' @ rem]))
             | None \<Rightarrow> (''Internal Error'', lines0 @ [''Internal Error'']));
          lines2 = lines1 @ ['''', ''Today'' @ [CHR 0x27] @ ''s Schedule:''];
          lines3 = foldl (scheduleRow loc now next ampm events) lines2 StandardOrder
      in \<lparr>Text = text, Tooltip = Join lines3 [CHR 0x0A], Class = ''adhan''\<rparr>)"

section \<open>Example inputs\<close>

text \<open>
  The scenario of the specification: London on 15 June 2024 (British Summer Time, one
  hour east of UTC from 31 March to 27 October), the clock at 10:00 local time, and a
  payload with \<open>Fajr\<close> and \<open>Dhuhr\<close>. \<open>newYork\<close> is New York around the change to
  daylight time on 10 March 2024 at 07:00 UTC.
\<close>

definition london :: location where
  "london s = (if s < 1711846800 then (0, 1698541200, 1711846800)
               else if s < 1729990800 then (3600, 1711846800, 1729990800)
               else (0, 1729990800, 1743296400))"

definition newYork :: location where
  "newYork s = (if s < 1710054000 then (- 18000, 1699164000, 1710054000)
                else (- 14400, 1710054000, 1730613600))"

definition utc :: location where
  "utc s = (0, - (2 ^ 63), 2 ^ 63 - 1)"

definition exampleZones :: Zones where
  "exampleZones =
     \<lparr>LoadLocation = (\<lambda>name. if name = ''Europe/London'' then Some london
                              else if name = ''America/New_York'' then Some newYork
                              else None),
      Local = utc\<rparr>"

definition exampleResp :: Response where
  "exampleResp =
     \<lparr>Timings = [''Fajr'' \<mapsto> ''05:12'', ''Dhuhr'' \<mapsto> ''12:30 (+03)''],
      GregorianDate = ''15-06-2024'',
      HijriDate = ''09-12-1445'', HijriMonthEn = ''Dhu al-Hijjah'', HijriMonthAr = [],
      HijriWeekdayEn = ''Al Sabt'', HijriWeekdayAr = [],
      Timezone = ''Europe/London''\<rparr>"

definition exampleNow :: Now where
  "exampleNow = \<lparr>nowInstant = 1718442000000000000, nowDay = 15, nowMonth = 6, nowYear = 2024\<rparr>"

section \<open>ParseTimes: the order of the result\<close>


text \<open>A payload whose times run against the order of the names comes out by instant.\<close>

lemma ParseTimes_sorted_example:
  "ParseTimes exampleNow
     (exampleResp\<lparr>Timings := [''Fajr'' \<mapsto> ''20:00'', ''Dhuhr'' \<mapsto> ''12:30'', ''Isha'' \<mapsto> ''05:00'']\<rparr>)
     london
   = [\<lparr>Name = ''Isha'', When = 1718424000000000000\<rparr>,
      \<lparr>Name = ''Dhuhr'', When = 1718451000000000000\<rparr>,
      \<lparr>Name = ''Fajr'', When = 1718478000000000000\<rparr>]"
  by code_simp

section \<open>TimezoneFromResp\<close>

text \<open>
  Claim C9. Timezone resolution never fails: \<open>TimezoneFromResp\<close> always returns a
  location. When the payload's timezone identifier is empty or cannot be loaded it is
  the system's local timezone; when the identifier loads, it is the loaded timezone.
\<close>

theorem TimezoneFromResp_fallback:
  "TimezoneFromResp zones resp =
     (if Timezone resp = [] \<or> LoadLocation zones (Timezone resp) = None then Local zones
      else the (LoadLocation zones (Timezone resp)))"
  by (auto simp: TimezoneFromResp_def Let_def split: option.splits)

theorem TimezoneFromResp_fallback_witness:
  "TimezoneFromResp exampleZones exampleResp = london
   \<and> TimezoneFromResp exampleZones (exampleResp\<lparr>Timezone := []\<rparr>) = utc
   \<and> TimezoneFromResp exampleZones (exampleResp\<lparr>Timezone := ''Mars/Olympus''\<rparr>) = utc"
  using TimezoneFromResp_fallback [of exampleZones exampleResp]
    TimezoneFromResp_fallback [of exampleZones "exampleResp\<lparr>Timezone := []\<rparr>"]
    TimezoneFromResp_fallback [of exampleZones "exampleResp\<lparr>Timezone := ''Mars/Olympus''\<rparr>"]
  by (simp add: exampleZones_def exampleResp_def)

section \<open>The status-line view without an upcoming event\<close>

lemma foldl_parseRow_empty:
  "Timings resp = Map.empty \<Longrightarrow> foldl (parseRow now resp loc g) acc names = acc"
  by (induction names arbitrary: acc) (auto simp: parseRow_def)

lemma ParseTimes_empty_payload: "Timings resp = Map.empty \<Longrightarrow> ParseTimes now resp loc = []"
  by (simp add: ParseTimes_def Let_def foldl_parseRow_empty sortSlice_def)

text \<open>
  Claim C2, as the code has it. For every payload whose parsed event sequence is empty,
  \<open>Build\<close> returns a record (it never fails), but its \<open>text\<close> is the string
  \<open>Internal Error\<close>, not the \<open>No upcoming prayer\<close> fallback that the claim states, and the
  tooltip carries \<open>Internal Error\<close> as its line for the next event.
\<close>

theorem Build_fallback_text:
  "ParseTimes now resp (TimezoneFromResp zones resp) = [] \<Longrightarrow>
   Text (Build zones now resp ampm arabic short) = ''Internal Error''
   \<and> Text (Build zones now resp ampm arabic short) \<noteq> ''No upcoming prayer''
   \<and> Tooltip (Build zones now resp ampm arabic short)
       = Join ((if HijriString resp arabic \<noteq> []
                then [calendarSign @ '' '' @ HijriString resp arabic] else [])
               @ [''Internal Error'', [], ''Today'' @ [CHR 0x27] @ ''s Schedule:'']) [CHR 0x0A]"
proof -
  assume e: "ParseTimes now resp (TimezoneFromResp zones resp) = []"
  have f: "foldl (scheduleRow loc now next ampm []) ls names = ls" for loc "next" ls names
    by (induction names arbitrary: ls) (simp_all add: scheduleRow_def)
  show ?thesis
    by (simp add: Build_def Let_def NextEventAfter_def e f)
qed

theorem Build_fallback_text_witness:
  "ParseTimes exampleNow (exampleResp\<lparr>Timings := Map.empty\<rparr>)
     (TimezoneFromResp exampleZones (exampleResp\<lparr>Timings := Map.empty\<rparr>)) = []
   \<and> Text (Build exampleZones exampleNow (exampleResp\<lparr>Timings := Map.empty\<rparr>) False False False)
       = ''Internal Error''"
proof -
  have e: "ParseTimes exampleNow (exampleResp\<lparr>Timings := Map.empty\<rparr>)
     (TimezoneFromResp exampleZones (exampleResp\<lparr>Timings := Map.empty\<rparr>)) = []"
    by (rule ParseTimes_empty_payload) simp
  show ?thesis
    using e Build_fallback_text [OF e, of False False False] by simp
qed

section \<open>Rows of the payload: which are skipped and which give an event\<close>

























lemma rollover_example:
  "parseDateTime exampleNow ''15-06-2024'' ''25:70'' london
     = parseDateTime exampleNow ''16-06-2024'' ''02:10'' london"
  by code_simp

section \<open>Valid rows: order and distinctness of the instants\<close>



















section \<open>HumanDuration\<close>







section \<open>The scheduling daemon\<close>

text \<open>
  \<open>runServe\<close> calls its closure \<open>scheduleEvents\<close> once at the start and once for every
  tick of the ticker. A timer is the goroutine started by
  \<open>go scheduleNotification(ev, hijri)\<close>: it sleeps until \<open>ev.When\<close>, calls
  \<open>notify.Prayer(ev, hijri)\<close> and ends. Nothing in \<open>runServe\<close> or \<open>scheduleNotification\<close>
  stops such a goroutine before its timer fires; they end unfired only with the process.

  A cycle's inputs are what the cache holds for the parameters (\<open>c.Get\<close>), what
  \<open>client.FetchTimings\<close> returns when the cache holds nothing (\<open>None\<close> is its error),
  and the reading of the clock.
\<close>

type_synonym timer = "Event \<times> string"

record Cycle =
  cached :: "Response option"
  fetched :: "Response option"
  clock :: Now

text \<open>One round of the loop over \<open>upcoming\<close>, with the started goroutines as its state.\<close>

definition armRound :: "Now \<Rightarrow> string \<Rightarrow> timer list \<Rightarrow> Event \<Rightarrow> timer list" where
  "armRound now hijri timers ev =
     (if When ev < nowInstant now then timers else timers @ [(ev, hijri)])"

definition scheduleEvents :: "Zones \<Rightarrow> bool \<Rightarrow> Cycle \<Rightarrow> timer list \<Rightarrow> timer list" where
  "scheduleEvents zones arabic c timers =
     (case (case cached c of Some r \<Rightarrow> Some r | None \<Rightarrow> fetched c) of
        None \<Rightarrow> timers
      | Some resp \<Rightarrow>
          (let loc = TimezoneFromResp zones resp;
               events = ParseTimes (clock c) resp loc
           in if events = [] then timers
              else (let now = clock c;
                        upcoming = UpcomingEvents events (nowInstant now) 86400000000000;
                        hijri = HijriString resp arabic
                    in foldl (armRound now hijri) timers upcoming)))"

text \<open>
  The daemon's state: the timers that sleep, and the notifications sent so far. What
  happens to it: a refresh (the start or a tick), or the clock reaching an instant, when
  every timer that is due fires.
\<close>

record Daemon =
  timers :: "timer list"
  fired :: "timer list"










lemma foldl_armRound_map:
  "foldl (armRound now hijri) [] evs
     = map (\<lambda>e. (e, hijri)) (filter (\<lambda>e. \<not> When e < nowInstant now) evs)"
proof (induction evs rule: rev_induct)
  case Nil
  show ?case by simp
next
  case (snoc e evs)
  then show ?case by (simp add: armRound_def)
qed

lemma upcoming_after_now:
  "filter (\<lambda>e. \<not> When e < t) (UpcomingEvents events t within) = UpcomingEvents events t within"
proof -
  have "set (UpcomingEvents events t within)
        = set (filter (\<lambda>e. t < When e \<and> When e < t + within) events)"
    by (simp add: UpcomingEvents_filter set_sortSlice)
  then have "\<forall>e\<in>set (UpcomingEvents events t within). \<not> When e < t" by auto
  then show ?thesis by (simp add: filter_id_conv)
qed

lemma armed_one_per_upcoming:
  "(case cached c of Some r \<Rightarrow> Some r | None \<Rightarrow> fetched c) = Some resp \<Longrightarrow>
   ParseTimes (clock c) resp (TimezoneFromResp zones resp) \<noteq> [] \<Longrightarrow>
   scheduleEvents zones arabic c []
     = map (\<lambda>e. (e, HijriString resp arabic))
         (UpcomingEvents (ParseTimes (clock c) resp (TimezoneFromResp zones resp))
            (nowInstant (clock c)) 86400000000000)"
  by (simp add: scheduleEvents_def Let_def foldl_armRound_map upcoming_after_now)






end
